theory Spec2Isabelle
  imports Complex_Main "HOL-Library.Char_ord" "HOL-Library.List_Lexorder"
begin

section \<open>The benchmark report generator \<^verbatim>\<open>experiments/analyze_benchmarks.py\<close>\<close>

text \<open>
  The script reads one CSV table, renames its columns to canonical names, turns text cells
  into numbers, groups the rows by method, derives a 95 percent confidence interval and
  writes a summary CSV, two plots, a markdown report and a LaTeX table.

  Conventions of the embedding:
  \<^item> a Python \<^verbatim>\<open>str\<close> is a \<^typ>\<open>string\<close>; headers and cells are taken to be ASCII, so
    \<^verbatim>\<open>str.lower\<close> changes the letters A to Z only and \<^verbatim>\<open>str.strip\<close> removes the ASCII
    white space characters;
  \<^item> a Python \<^verbatim>\<open>float\<close> is a \<^typ>\<open>real option\<close>: \<open>None\<close> is the missing value
    \<^verbatim>\<open>nan\<close>, \<open>Some x\<close> a number. Rounding and the infinities of IEEE doubles are not
    represented;
  \<^item> an uncaught exception is a value of type \<open>error\<close>; a run records what it printed,
    the files it wrote and the exception that ended it, if any.
\<close>

subsection \<open>Strings\<close>

definition is_space :: "char \<Rightarrow> bool" where
  "is_space c = (c \<in> set [CHR 0x09, CHR 0x0A, CHR 0x0B, CHR 0x0C, CHR 0x0D,
                            CHR 0x1C, CHR 0x1D, CHR 0x1E, CHR 0x1F, CHR '' ''])"

text \<open>\<^verbatim>\<open>str.strip()\<close>: leading and trailing white space removed.\<close>

definition strip :: "string \<Rightarrow> string" where
  "strip s = rev (dropWhile is_space (rev (dropWhile is_space s)))"

definition lower_char :: "char \<Rightarrow> char" where
  "lower_char c =
     (case map_of (zip ''ABCDEFGHIJKLMNOPQRSTUVWXYZ'' ''abcdefghijklmnopqrstuvwxyz'') c of
        Some l \<Rightarrow> l
      | None \<Rightarrow> c)"

text \<open>\<^verbatim>\<open>str.lower()\<close>.\<close>

definition lower :: "string \<Rightarrow> string" where
  "lower s = map lower_char s"

fun starts_with :: "string \<Rightarrow> string \<Rightarrow> bool" where
  "starts_with [] s = True"
| "starts_with (p # ps) [] = False"
| "starts_with (p # ps) (c # cs) = (p = c \<and> starts_with ps cs)"

text \<open>\<^verbatim>\<open>sub in s\<close> on strings: \<open>sub\<close> occurs in \<open>s\<close> as a contiguous block.\<close>

fun contains :: "string \<Rightarrow> string \<Rightarrow> bool" where
  "contains sub [] = (sub = [])"
| "contains sub (c # cs) = (starts_with sub (c # cs) \<or> contains sub cs)"

subsection \<open>Column name canonicalization\<close>

text \<open>
  The body of the loop of \<^verbatim>\<open>canonicalize_columns\<close>, for one column whose name \<open>c\<close> has
  been stripped already: the \<^verbatim>\<open>if\<close>/\<^verbatim>\<open>elif\<close> chain in the order of the source.
  \<open>None\<close> means that the chain puts no entry into \<^verbatim>\<open>colmap\<close>.
\<close>

definition colmap_entry :: "string \<Rightarrow> string option" where
  "colmap_entry c =
     (let lc = lower c in
      if contains ''method'' lc then Some ''Method''
      else if (contains ''mean'' lc \<and> \<not> contains ''ci'' lc) \<or> contains ''avg'' lc
        then Some ''Mean_ms''
      else if contains ''std'' lc then Some ''StdDev_ms''
      else if contains ''ci'' lc \<and> contains ''95'' lc then Some ''CI95_ms''
      else if contains ''fallback'' lc then Some ''Fallback_pct''
      else if contains ''accuracy'' lc then Some ''Accuracy_pct''
      else if contains ''sample'' lc \<or> strip lc = ''n'' then Some ''Samples''
      else if contains ''input'' lc \<and> contains ''len'' lc then Some ''InputLength''
      else if contains ''min'' lc then Some ''Min_ms''
      else if contains ''max'' lc then Some ''Max_ms''
      else None)"

text \<open>
  The name a header ends with: the first \<^verbatim>\<open>rename\<close> strips it, the second one replaces
  it by its \<^verbatim>\<open>colmap\<close> entry when there is one.
\<close>

definition canonical_name :: "string \<Rightarrow> string" where
  "canonical_name h = (case colmap_entry (strip h) of Some n \<Rightarrow> n | None \<Rightarrow> strip h)"

subsection \<open>Numeric extraction\<close>

text \<open>
  \<^verbatim>\<open>num_re = [+-]?\d*\.?\d+(?:[eE][+-]?\d+)?\<close>, searched with \<^verbatim>\<open>num_re.search\<close>: the
  leftmost position where the pattern matches, and there the first match in the order in
  which a backtracking matcher tries the greedy alternatives.
\<close>

definition is_digit :: "char \<Rightarrow> bool" where
  "is_digit c = (c \<in> set ''0123456789'')"

definition is_sign :: "char \<Rightarrow> bool" where
  "is_sign c = (c = CHR ''+'' \<or> c = CHR ''-'')"

text \<open>
  The parts of a match: the sign character (or nothing), the digits before the point, the
  digits after it (empty when no point was matched), and the exponent as its sign
  character (or nothing) and its digits. \<^verbatim>\<open>m.group(0)\<close> is their concatenation, with the
  point and the exponent letter between them.
\<close>

record literal =
  lit_sign :: string
  int_digits :: string
  frac_digits :: string
  lit_exponent :: "(string \<times> string) option"

text \<open>
  \<^verbatim>\<open>\d*\.?\d+\<close> at the start of \<open>s\<close>. The matcher first takes every digit, then the
  point, then needs a digit; when there is none after the point it gives the point back,
  and then one digit of the run, which \<^verbatim>\<open>\d+\<close> takes. The result is the digits before
  the point, the digits after it and the text that follows.
\<close>

definition match_mantissa :: "string \<Rightarrow> (string \<times> string \<times> string) option" where
  "match_mantissa s =
     (let ds = takeWhile is_digit s; r = dropWhile is_digit s in
      case r of
        [] \<Rightarrow> if ds \<noteq> [] then Some (ds, [], r) else None
      | c # r' \<Rightarrow>
          if c = CHR ''.'' \<and> takeWhile is_digit r' \<noteq> []
          then Some (ds, takeWhile is_digit r', dropWhile is_digit r')
          else if ds \<noteq> [] then Some (ds, [], r) else None)"

text \<open>
  \<^verbatim>\<open>(?:[eE][+-]?\d+)?\<close> at the start of \<open>r\<close>: \<open>None\<close> when the optional group matches
  nothing.
\<close>

definition match_exponent :: "string \<Rightarrow> (string \<times> string) option" where
  "match_exponent r =
     (case r of
        [] \<Rightarrow> None
      | e # r1 \<Rightarrow>
          if e = CHR ''e'' \<or> e = CHR ''E'' then
            (case r1 of
               [] \<Rightarrow> None
             | sg # r2 \<Rightarrow>
                 if is_sign sg \<and> takeWhile is_digit r2 \<noteq> []
                 then Some ([sg], takeWhile is_digit r2)
                 else if takeWhile is_digit r1 \<noteq> [] then Some ([], takeWhile is_digit r1)
                 else None)
          else None)"

definition match_unsigned :: "string \<Rightarrow> string \<Rightarrow> literal option" where
  "match_unsigned sg s =
     (case match_mantissa s of
        None \<Rightarrow> None
      | Some (ds, fs, r) \<Rightarrow>
          Some \<lparr>lit_sign = sg, int_digits = ds, frac_digits = fs,
                lit_exponent = match_exponent r\<rparr>)"

text \<open>
  The whole pattern at the start of \<open>s\<close>: \<^verbatim>\<open>[+-]?\<close> takes a sign when there is one, and
  the matcher tries again without it when the rest fails.
\<close>

definition match_here :: "string \<Rightarrow> literal option" where
  "match_here s =
     (case s of
        [] \<Rightarrow> match_unsigned [] s
      | c # r \<Rightarrow>
          if is_sign c then
            (case match_unsigned [c] r of
               Some l \<Rightarrow> Some l
             | None \<Rightarrow> match_unsigned [] s)
          else match_unsigned [] s)"

fun num_re_search :: "string \<Rightarrow> literal option" where
  "num_re_search [] = match_here []"
| "num_re_search (c # cs) =
     (case match_here (c # cs) of
        Some l \<Rightarrow> Some l
      | None \<Rightarrow> num_re_search cs)"

definition digit_value :: "char \<Rightarrow> nat" where
  "digit_value c = of_char c - 48"

definition digits_value :: "string \<Rightarrow> nat" where
  "digits_value ds = foldl (\<lambda>a c. 10 * a + digit_value c) 0 ds"

text \<open>
  \<^verbatim>\<open>float(m.group(0))\<close>: the value of the decimal literal. The model gives the exact
  value, where Python gives the double nearest to it.
\<close>

definition float_of_literal :: "literal \<Rightarrow> real" where
  "float_of_literal l =
     (let m = real (digits_value (int_digits l @ frac_digits l));
          e = (case lit_exponent l of
                 None \<Rightarrow> 0
               | Some (sg, ds) \<Rightarrow>
                   if sg = ''-'' then - int (digits_value ds) else int (digits_value ds))
              - int (length (frac_digits l));
          v = (if 0 \<le> e then m * 10 ^ nat e else m / 10 ^ nat (- e))
      in if lit_sign l = ''-'' then - v else v)"

text \<open>
  \<^verbatim>\<open>extract_number\<close> on a cell of a text column: \<open>None\<close> is the missing cell, for which
  \<^verbatim>\<open>pd.isna\<close> holds, and the result \<open>None\<close> is \<^verbatim>\<open>np.nan\<close>.
\<close>

definition extract_number :: "string option \<Rightarrow> real option" where
  "extract_number s =
     (case s of
        None \<Rightarrow> None
      | Some t \<Rightarrow> map_option float_of_literal (num_re_search t))"

subsection \<open>Tables\<close>

text \<open>
  A table as \<^verbatim>\<open>pd.read_csv\<close> returns it: a list of named columns. A column that parsed
  as numbers throughout is numeric and holds numbers and missing cells; any other column
  has \<^verbatim>\<open>dtype == object\<close> and holds the text of its cells, and missing cells.
\<close>

datatype column = FloatCol "real option list" | ObjectCol "string option list"

type_synonym frame = "(string \<times> column) list"

datatype error = OSError | AttributeError | KeyError | ValueError | TypeError

definition columns :: "frame \<Rightarrow> string list" where
  "columns df = map fst df"

definition canonicalize_columns :: "frame \<Rightarrow> frame" where
  "canonicalize_columns df = map (\<lambda>(h, col). (canonical_name h, col)) df"

definition clean_column :: "column \<Rightarrow> column" where
  "clean_column col =
     (case col of
        FloatCol xs \<Rightarrow> FloatCol xs
      | ObjectCol xs \<Rightarrow> FloatCol (map extract_number xs))"

text \<open>
  \<^verbatim>\<open>clean_numeric_columns\<close>. The loop skips \<^verbatim>\<open>Method\<close> and reads \<^verbatim>\<open>df[col].dtype\<close> for
  every other name. When two columns carry the name \<open>col\<close>, \<^verbatim>\<open>df[col]\<close> is a table, which
  has no attribute \<^verbatim>\<open>dtype\<close>, and the read raises \<^verbatim>\<open>AttributeError\<close>.
\<close>

definition clean_numeric_columns :: "frame \<Rightarrow> error + frame" where
  "clean_numeric_columns df =
     (if list_ex (\<lambda>c. c \<noteq> ''Method'' \<and> 1 < count_list (columns df) c) (columns df)
      then Inl AttributeError
      else Inr (map (\<lambda>(c, col). if c = ''Method'' then (c, col) else (c, clean_column col)) df))"

subsection \<open>Aggregation\<close>

definition compute_ci95 :: "real option \<Rightarrow> int option \<Rightarrow> real option" where
  "compute_ci95 std n =
     (case std of
        None \<Rightarrow> None
      | Some s \<Rightarrow>
          (case n of
             None \<Rightarrow> None
           | Some k \<Rightarrow> if k \<le> 0 then None else Some (1.96 * s / sqrt (real_of_int k))))"

text \<open>\<^verbatim>\<open>int(x)\<close> on a number: the fraction is cut off, towards zero.\<close>

definition py_int :: "real \<Rightarrow> int" where
  "py_int x = (if 0 \<le> x then \<lfloor>x\<rfloor> else \<lceil>x\<rceil>)"

text \<open>A value of the \<^verbatim>\<open>Method\<close> column: text, or a number when the column is numeric.\<close>

datatype key = Text string | Number real

definition present :: "'a option list \<Rightarrow> 'a list" where
  "present xs = List.map_filter id xs"

text \<open>
  \<^verbatim>\<open>groupby('Method')\<close>: one group for each distinct value, in ascending order of the
  values; rows whose \<^verbatim>\<open>Method\<close> is missing belong to no group.
\<close>

definition group_keys :: "column \<Rightarrow> key list" where
  "group_keys col =
     (case col of
        ObjectCol ms \<Rightarrow> map Text (sort (remdups (present ms)))
      | FloatCol ms \<Rightarrow> map Number (sort (remdups (present ms))))"

definition row_keys :: "column \<Rightarrow> key option list" where
  "row_keys col =
     (case col of
        ObjectCol ms \<Rightarrow> map (map_option Text) ms
      | FloatCol ms \<Rightarrow> map (map_option Number) ms)"

text \<open>The cells of one column in the rows of group \<open>k\<close> that are not missing.\<close>

definition group_cells :: "key option list \<Rightarrow> real option list \<Rightarrow> key \<Rightarrow> real list" where
  "group_cells keys cells k =
     List.map_filter (\<lambda>(k', c). if k' = Some k then c else None) (zip keys cells)"

text \<open>The aggregations \<^verbatim>\<open>'mean'\<close> and \<^verbatim>\<open>'max'\<close>; both skip missing cells.\<close>

definition agg_mean :: "real list \<Rightarrow> real option" where
  "agg_mean xs = (if xs = [] then None else Some (sum_list xs / real (length xs)))"

definition agg_max :: "real list \<Rightarrow> real option" where
  "agg_max xs = (if xs = [] then None else Some (Max (set xs)))"

text \<open>
  The keys of the dictionary given to \<^verbatim>\<open>agg\<close>. The table that \<^verbatim>\<open>agg\<close> returns has the
  grouping column and one column for each key, and no other column.
\<close>

definition agg_columns :: "string list" where
  "agg_columns = [''Mean_ms'', ''StdDev_ms'', ''Fallback_pct'', ''Accuracy_pct'', ''Samples'']"

definition summary_columns :: "string list" where
  "summary_columns = ''Method'' # agg_columns"

text \<open>A row of the table \<^verbatim>\<open>summary\<close> as it is written to the summary CSV.\<close>

record summary_row =
  Method :: key
  Mean_ms :: "real option"
  StdDev_ms :: "real option"
  Fallback_pct :: "real option"
  Accuracy_pct :: "real option"
  Samples :: "real option"
  CI95_ms :: "real option"

text \<open>\<^verbatim>\<open>fillna(args.assume_n)\<close> on one cell.\<close>

definition fillna :: "real option \<Rightarrow> int \<Rightarrow> real" where
  "fillna x assume_n = (case x of None \<Rightarrow> real_of_int assume_n | Some v \<Rightarrow> v)"

text \<open>
  The function applied to each row \<open>r\<close> of \<^verbatim>\<open>summary\<close> for its \<^verbatim>\<open>CI95_ms\<close>: \<open>cols\<close> is
  \<^verbatim>\<open>summary.columns\<close>, \<open>ci\<close> is \<^verbatim>\<open>r.get('CI95_ms', np.nan)\<close>, \<open>std\<close> is \<^verbatim>\<open>r['StdDev_ms']\<close>
  and \<open>n\<close> is \<^verbatim>\<open>r['Samples']\<close>, which \<^verbatim>\<open>fillna\<close> has left without missing cells.
\<close>

definition ci95_of_row :: "string list \<Rightarrow> real option \<Rightarrow> real option \<Rightarrow> real \<Rightarrow> real option" where
  "ci95_of_row cols ci std n =
     (if ''CI95_ms'' \<in> set cols \<and> ci \<noteq> None then ci
      else compute_ci95 std (Some (py_int n)))"

text \<open>
  One row of \<^verbatim>\<open>summary\<close>, for group \<open>k\<close>. A row of the table that \<^verbatim>\<open>agg\<close> returns has
  no label \<^verbatim>\<open>CI95_ms\<close>, so \<^verbatim>\<open>r.get('CI95_ms', np.nan)\<close> is the default.
\<close>

definition summarize_group ::
  "int \<Rightarrow> key option list \<Rightarrow> real option list \<Rightarrow> real option list \<Rightarrow> real option list \<Rightarrow>
   real option list \<Rightarrow> real option list \<Rightarrow> key \<Rightarrow> summary_row" where
  "summarize_group assume_n keys mean std fb acc smp k =
     (let sd = agg_mean (group_cells keys std k);
          n = fillna (agg_max (group_cells keys smp k)) assume_n
      in \<lparr>Method = k,
          Mean_ms = agg_mean (group_cells keys mean k),
          StdDev_ms = sd,
          Fallback_pct = agg_mean (group_cells keys fb k),
          Accuracy_pct = agg_mean (group_cells keys acc k),
          Samples = Some n,
          CI95_ms = ci95_of_row summary_columns None sd n\<rparr>)"

definition bind_result :: "error + 'a \<Rightarrow> ('a \<Rightarrow> error + 'b) \<Rightarrow> error + 'b" where
  "bind_result r f = (case r of Inl e \<Rightarrow> Inl e | Inr v \<Rightarrow> f v)"

text \<open>
  A column that \<^verbatim>\<open>agg\<close> is asked to aggregate. A name that is not a column of the table
  makes \<^verbatim>\<open>agg\<close> raise \<^verbatim>\<open>KeyError\<close> (\<^verbatim>\<open>Column(s) [...] do not exist\<close>); a text column has
  no mean.
\<close>

definition agg_input :: "frame \<Rightarrow> string \<Rightarrow> error + real option list" where
  "agg_input df c =
     (case map_of df c of
        None \<Rightarrow> Inl KeyError
      | Some (FloatCol xs) \<Rightarrow> Inr xs
      | Some (ObjectCol xs) \<Rightarrow> Inl TypeError)"

text \<open>
  Lines 233 to 248 of \<^verbatim>\<open>main\<close>: \<^verbatim>\<open>groupby\<close>, \<^verbatim>\<open>agg\<close>, \<^verbatim>\<open>fillna\<close> and the \<^verbatim>\<open>CI95_ms\<close> column.
  \<^item> \<^verbatim>\<open>groupby('Method')\<close> raises \<^verbatim>\<open>ValueError\<close> when several columns are named
    \<^verbatim>\<open>Method\<close>.
  \<^item> \<^verbatim>\<open>agg\<close> receives a dictionary that always has the five keys of \<open>agg_columns\<close>: for
    a column that the table lacks, only the aggregation in the entry changes, the key
    stays. It raises \<^verbatim>\<open>KeyError\<close> when one of the five is not a column of the table.
  \<^item> The loop after it adds the columns of \<open>agg_columns\<close> that \<^verbatim>\<open>summary\<close> lacks; it
    lacks none.
  \<^item> With no group, \<^verbatim>\<open>summary.apply\<close> returns a table and not a column, and the
    assignment to \<^verbatim>\<open>summary['CI95_ms']\<close> raises \<^verbatim>\<open>ValueError\<close>.
\<close>

definition aggregate :: "int \<Rightarrow> frame \<Rightarrow> error + summary_row list" where
  "aggregate assume_n df =
     (if 1 < count_list (columns df) ''Method'' then Inl ValueError
      else case map_of df ''Method'' of
        None \<Rightarrow> Inl KeyError
      | Some mcol \<Rightarrow>
          if \<not> list_all (\<lambda>c. c \<in> set (columns df)) agg_columns then Inl KeyError
          else
            bind_result (agg_input df ''Mean_ms'') (\<lambda>mean.
            bind_result (agg_input df ''StdDev_ms'') (\<lambda>std.
            bind_result (agg_input df ''Fallback_pct'') (\<lambda>fb.
            bind_result (agg_input df ''Accuracy_pct'') (\<lambda>acc.
            bind_result (agg_input df ''Samples'') (\<lambda>smp.
              if group_keys mcol = [] then Inl ValueError
              else Inr (map (summarize_group assume_n (row_keys mcol) mean std fb acc smp)
                            (group_keys mcol))))))))"

subsection \<open>Rendering\<close>

text \<open>
  An entry of the list \<^verbatim>\<open>summary_rows\<close>: the dictionary built from one row of
  \<^verbatim>\<open>summary\<close>, with a default in the place of each missing value.
\<close>

record rendered_row =
  row_Method :: key
  row_Mean_ms :: real
  row_StdDev_ms :: real
  row_CI95_ms :: real
  row_Fallback_pct :: real
  row_Accuracy_pct :: real
  row_Samples :: int

definition render_row :: "int \<Rightarrow> summary_row \<Rightarrow> rendered_row" where
  "render_row assume_n row =
     \<lparr>row_Method = Method row,
      row_Mean_ms = (case Mean_ms row of Some x \<Rightarrow> x | None \<Rightarrow> 0),
      row_StdDev_ms = (case StdDev_ms row of Some x \<Rightarrow> x | None \<Rightarrow> 0),
      row_CI95_ms = (case CI95_ms row of Some x \<Rightarrow> x | None \<Rightarrow> 0),
      row_Fallback_pct = (case Fallback_pct row of Some x \<Rightarrow> x | None \<Rightarrow> 0),
      row_Accuracy_pct = (case Accuracy_pct row of Some x \<Rightarrow> x | None \<Rightarrow> 100),
      row_Samples = (case Samples row of Some x \<Rightarrow> py_int x | None \<Rightarrow> assume_n)\<rparr>"

text \<open>
  Lines 261 to 274: the rows are rendered in the order of \<^verbatim>\<open>summary\<close> and then sorted
  by \<^verbatim>\<open>sorted\<close>, which is stable, as \<open>sort_key\<close> is.
\<close>

definition summary_rows :: "int \<Rightarrow> summary_row list \<Rightarrow> rendered_row list" where
  "summary_rows assume_n summary = sort_key row_Mean_ms (map (render_row assume_n) summary)"

text \<open>
  The files of a run. Each holds its path and the data that the writer was given; the
  text or picture made from the data is not modelled, and the calls into the plotting
  library are taken to succeed.
\<close>

datatype output_file =
    SummaryCsv string "summary_row list"
  | BarChart string "rendered_row list"
  | ScalingPlot string frame
  | MarkdownReport string "rendered_row list" "string list"
  | LatexTable string "rendered_row list"

datatype message =
    NoCsvFound
  | UsingCsv string
  | MissingMethodColumn
  | SkippingScalingPlot
  | Generated "string list"

record run =
  printed :: "message list"
  files :: "output_file list"
  raised :: "error option"


text \<open>
  \<^verbatim>\<open>generate_scaling_plot\<close> calls \<^verbatim>\<open>m.lower()\<close> for each distinct value \<open>m\<close> of the
  \<^verbatim>\<open>Method\<close> column, the missing value among them. Only text has that method.
\<close>

definition scaling_plot_raises :: "frame \<Rightarrow> bool" where
  "scaling_plot_raises detailed =
     (case map_of detailed ''Method'' of
        None \<Rightarrow> True
      | Some (ObjectCol ms) \<Rightarrow> list_ex (\<lambda>m. m = None) ms
      | Some (FloatCol ms) \<Rightarrow> ms \<noteq> [])"

text \<open>\<^verbatim>\<open>Path(p).stem\<close>: the last component of the path without its last suffix.\<close>

definition path_name :: "string \<Rightarrow> string" where
  "path_name p = rev (takeWhile (\<lambda>c. c \<noteq> CHR ''/'') (rev p))"

definition path_stem :: "string \<Rightarrow> string" where
  "path_stem p =
     (let name = path_name p;
          suffix = rev (takeWhile (\<lambda>c. c \<noteq> CHR ''.'') (rev name));
          i = int (length name) - int (length suffix) - 1
      in if 0 < i \<and> i < int (length name) - 1 then take (nat i) name else name)"

record args =
  csv :: "string option"
  outdir :: string
  assume_n :: int


text \<open>
  What the run sees of the file system: for each of the two search paths, \<open>None\<close> when
  it does not exist and otherwise the CSV files below it with their modification times,
  in the order of \<^verbatim>\<open>rglob\<close>; and the result of \<^verbatim>\<open>pd.read_csv\<close> on a path.
\<close>

record env =
  search_paths :: "(string \<times> int) list option list"
  read_csv :: "string \<Rightarrow> error + frame"

definition find_latest_csv :: "(string \<times> int) list option list \<Rightarrow> string option" where
  "find_latest_csv paths =
     (let fs = concat (map (\<lambda>p. case p of None \<Rightarrow> [] | Some l \<Rightarrow> l) paths)
      in case sort_key (\<lambda>f. - snd f) fs of
           [] \<Rightarrow> None
         | f # rest \<Rightarrow> Some (fst f))"

text \<open>Lines 250 to 307 of \<^verbatim>\<open>main\<close>.\<close>

definition write_outputs :: "args \<Rightarrow> string \<Rightarrow> frame option \<Rightarrow> summary_row list \<Rightarrow> run" where
  "write_outputs a csv_path detailed summary =
     (let stem = path_stem csv_path;
          out_base = outdir a @ ''/reports/'';
          out_plots = outdir a @ ''/plots/'';
          cleaned_csv = out_base @ ''summary_'' @ stem @ ''.csv'';
          rows = summary_rows (assume_n a) summary;
          runtime_plot = out_plots @ ''runtime_comparison_'' @ stem @ ''.png'';
          scaling_plot = out_plots @ ''runtime_scaling_'' @ stem @ ''.png'';
          md_out = out_base @ ''hybrid_validation_summary_'' @ stem @ ''.md'';
          tex_out = out_base @ ''hybrid_validation_table_'' @ stem @ ''.tex'';
          first = [SummaryCsv cleaned_csv summary, BarChart runtime_plot rows];
          finish = (\<lambda>msgs fs plots.
            \<lparr>printed = UsingCsv csv_path # msgs @ [Generated plots],
             files = first @ fs @ [MarkdownReport md_out rows plots, LatexTable tex_out rows],
             raised = None\<rparr>)
      in case detailed of
           None \<Rightarrow> finish [] [] [runtime_plot]
         | Some d \<Rightarrow>
             if ''Runtime_ms'' \<notin> set (columns d) then finish [SkippingScalingPlot] [] [runtime_plot]
             else if scaling_plot_raises d
               then \<lparr>printed = [UsingCsv csv_path], files = first, raised = Some AttributeError\<rparr>
             else finish [] [ScalingPlot scaling_plot d] [runtime_plot, scaling_plot])"

text \<open>
  Line 212: the path given with \<^verbatim>\<open>--csv\<close> when there is one and it is not the empty
  string, and the latest CSV file of the search paths otherwise.
\<close>

definition csv_path_of :: "args \<Rightarrow> env \<Rightarrow> string option" where
  "csv_path_of a e =
     (if csv a \<noteq> None \<and> csv a \<noteq> Some [] then csv a
      else find_latest_csv (search_paths e))"

text \<open>Lines 219 to 307 of \<^verbatim>\<open>main\<close>: the run from the table that was read.\<close>

definition report :: "args \<Rightarrow> string \<Rightarrow> frame \<Rightarrow> run" where
  "report a csv_path df0 =
     (case clean_numeric_columns (canonicalize_columns df0) of
        Inl err \<Rightarrow> \<lparr>printed = [UsingCsv csv_path], files = [], raised = Some err\<rparr>
      | Inr df \<Rightarrow>
          let detailed =
                (if ''InputLength'' \<in> set (columns df) \<and> ''Runtime_ms'' \<in> set (columns df)
                 then Some df else None)
          in if ''Method'' \<notin> set (columns df)
             then \<lparr>printed = [UsingCsv csv_path, MissingMethodColumn], files = [],
                   raised = None\<rparr>
             else (case aggregate (assume_n a) df of
                     Inl err \<Rightarrow> \<lparr>printed = [UsingCsv csv_path], files = [], raised = Some err\<rparr>
                   | Inr summary \<Rightarrow> write_outputs a csv_path detailed summary))"

text \<open>\<^verbatim>\<open>main\<close>, from the parsed arguments on.\<close>

definition main :: "args \<Rightarrow> env \<Rightarrow> run" where
  "main a e =
     (case csv_path_of a e of
        None \<Rightarrow> \<lparr>printed = [NoCsvFound], files = [], raised = None\<rparr>
      | Some csv_path \<Rightarrow>
          (case read_csv e csv_path of
             Inl err \<Rightarrow> \<lparr>printed = [UsingCsv csv_path], files = [], raised = Some err\<rparr>
           | Inr df0 \<Rightarrow> report a csv_path df0))"

subsection \<open>Reading a run\<close>

text \<open>The rows of the summary CSV that a run wrote.\<close>

definition summary_of :: "run \<Rightarrow> summary_row list" where
  "summary_of r = concat (map (\<lambda>f. case f of SummaryCsv p s \<Rightarrow> s | _ \<Rightarrow> []) (files r))"


text \<open>The tables that a run gave to the scaling plot.\<close>

definition scaling_of :: "run \<Rightarrow> frame list" where
  "scaling_of r = concat (map (\<lambda>f. case f of ScalingPlot p d \<Rightarrow> [d] | _ \<Rightarrow> []) (files r))"


subsection \<open>The rules of the canonicalization as a list\<close>

text \<open>
  The chain of \<open>colmap_entry\<close> written as a list of pairs of a test on the lower-cased
  name and a canonical name, in the order of the source; the first pair whose test holds
  gives the name.
\<close>

definition rules :: "((string \<Rightarrow> bool) \<times> string) list" where
  "rules =
     [(contains ''method'', ''Method''),
      (\<lambda>lc. (contains ''mean'' lc \<and> \<not> contains ''ci'' lc) \<or> contains ''avg'' lc, ''Mean_ms''),
      (contains ''std'', ''StdDev_ms''),
      (\<lambda>lc. contains ''ci'' lc \<and> contains ''95'' lc, ''CI95_ms''),
      (contains ''fallback'', ''Fallback_pct''),
      (contains ''accuracy'', ''Accuracy_pct''),
      (\<lambda>lc. contains ''sample'' lc \<or> strip lc = ''n'', ''Samples''),
      (\<lambda>lc. contains ''input'' lc \<and> contains ''len'' lc, ''InputLength''),
      (contains ''min'', ''Min_ms''),
      (contains ''max'', ''Max_ms'')]"

fun first_match :: "((string \<Rightarrow> bool) \<times> string) list \<Rightarrow> string \<Rightarrow> string option" where
  "first_match [] lc = None"
| "first_match ((test, name) # rs) lc = (if test lc then Some name else first_match rs lc)"

subsection \<open>Example inputs\<close>

text \<open>A command line with \<^verbatim>\<open>--csv bench.csv\<close>, and a file system where the file holds \<open>t\<close>.\<close>

definition given_csv :: args where
  "given_csv = \<lparr>csv = Some ''bench.csv'', outdir = ''experiments'', assume_n = 30\<rparr>"

definition env_with :: "frame \<Rightarrow> env" where
  "env_with t = \<lparr>search_paths = [], read_csv = (\<lambda>p. Inr t)\<rparr>"

text \<open>One method with every column, a confidence interval of 5 among them.\<close>

definition source_ci_table :: frame where
  "source_ci_table =
     [(''Method'', ObjectCol [Some ''Regex'']),
      (''Mean (ms)'', FloatCol [Some 1]),
      (''StdDev (ms)'', FloatCol [Some 1]),
      (''CI95 (ms)'', FloatCol [Some 5]),
      (''Fallback %'', FloatCol [Some 0]),
      (''Accuracy %'', FloatCol [Some 100]),
      (''Samples'', FloatCol [Some 4])]"

text \<open>A table with a method column and nothing else.\<close>

definition method_only_table :: frame where
  "method_only_table = [(''Method'', ObjectCol [Some ''Regex''])]"

text \<open>Two per-sample rows of one method, with input lengths and runtimes.\<close>

definition detailed_table :: frame where
  "detailed_table =
     [(''Method'', ObjectCol [Some ''DFA'', Some ''DFA'']),
      (''InputLength'', FloatCol [Some 10, Some 100]),
      (''Runtime_ms'', FloatCol [Some 1, Some 3]),
      (''Mean (ms)'', FloatCol [Some 1, Some 3]),
      (''StdDev (ms)'', FloatCol [Some 0, Some 0]),
      (''Fallback %'', FloatCol [Some 0, Some 0]),
      (''Accuracy %'', FloatCol [Some 100, Some 100]),
      (''Samples'', FloatCol [Some 4, Some 4])]"








section \<open>Facts about the model\<close>

subsection \<open>Substrings and names\<close>

lemma starts_with_iff: "starts_with p s \<longleftrightarrow> (\<exists>r. s = p @ r)"
  by (induction p s rule: starts_with.induct) auto

lemma contains_iff: "contains sub s \<longleftrightarrow> (\<exists>ps ss. s = ps @ sub @ ss)"
proof (induction s)
  case Nil
  then show ?case by auto
next
  case (Cons c cs)
  show ?case
  proof
    assume "contains sub (c # cs)"
    then consider "starts_with sub (c # cs)" | "contains sub cs" by auto
    then show "\<exists>ps ss. c # cs = ps @ sub @ ss"
    proof cases
      case 1
      then obtain r where "c # cs = sub @ r" by (auto simp: starts_with_iff)
      then have "c # cs = [] @ sub @ r" by simp
      then show ?thesis by blast
    next
      case 2
      then obtain ps ss where "cs = ps @ sub @ ss" using Cons.IH by blast
      then have "c # cs = (c # ps) @ sub @ ss" by simp
      then show ?thesis by blast
    qed
  next
    assume "\<exists>ps ss. c # cs = ps @ sub @ ss"
    then obtain ps ss where e: "c # cs = ps @ sub @ ss" by blast
    show "contains sub (c # cs)"
    proof (cases ps)
      case Nil
      then have "starts_with sub (c # cs)" using e unfolding starts_with_iff by auto
      then show ?thesis by simp
    next
      case (Cons a as)
      then have "cs = as @ sub @ ss" using e by simp
      then show ?thesis using Cons.IH by auto
    qed
  qed
qed

lemma contains_dropWhile:
  assumes "sub \<noteq> []" "\<not> P (hd sub)"
  shows "contains sub (dropWhile P s) = contains sub s"
  using assms
proof (induction s)
  case Nil
  then show ?case by simp
next
  case (Cons c cs)
  show ?case
  proof (cases "P c")
    case True
    then have "\<not> starts_with sub (c # cs)" using Cons.prems by (cases sub) auto
    then show ?thesis using True Cons by simp
  next
    case False
    then show ?thesis by simp
  qed
qed

lemma contains_rev: "contains (rev sub) (rev s) = contains sub s"
  unfolding contains_iff
  by (metis rev_append rev_rev_ident append_assoc)

lemma contains_strip:
  assumes "sub \<noteq> []" "\<not> is_space (hd sub)" "\<not> is_space (last sub)"
  shows "contains sub (strip s) = contains sub s"
proof -
  have r: "rev sub \<noteq> []" "\<not> is_space (hd (rev sub))" using assms by (auto simp: hd_rev)
  have "contains sub (strip s) = contains (rev sub) (dropWhile is_space (rev (dropWhile is_space s)))"
    unfolding strip_def using contains_rev[of "rev sub" "dropWhile is_space (rev (dropWhile is_space s))"] by simp
  also have "\<dots> = contains (rev sub) (rev (dropWhile is_space s))"
    using r by (rule contains_dropWhile)
  also have "\<dots> = contains sub (dropWhile is_space s)" by (rule contains_rev)
  also have "\<dots> = contains sub s" using assms(1,2) by (rule contains_dropWhile)
  finally show ?thesis .
qed

lemma space_lower_char: "is_space (lower_char c) = is_space c"
  by (simp add: lower_char_def is_space_def)

lemma lower_strip: "lower (strip s) = strip (lower s)"
proof -
  have c: "is_space \<circ> lower_char = is_space" by (auto simp: space_lower_char)
  have d: "map lower_char (dropWhile is_space xs) = dropWhile is_space (map lower_char xs)" for xs
    by (simp add: dropWhile_map c)
  show ?thesis
    by (simp add: strip_def lower_def d rev_map[symmetric])
qed

lemma contains_lower_strip:
  assumes "sub \<noteq> []" "\<not> is_space (hd sub)" "\<not> is_space (last sub)"
  shows "contains sub (lower (strip h)) = contains sub (lower h)"
  using contains_strip[OF assms] by (simp add: lower_strip)

lemma colmap_entry_range:
  "colmap_entry c = Some n \<Longrightarrow>
     n \<in> set [''Method'', ''Mean_ms'', ''StdDev_ms'', ''CI95_ms'', ''Fallback_pct'',
               ''Accuracy_pct'', ''Samples'', ''InputLength'', ''Min_ms'', ''Max_ms'']"
  by (auto simp: colmap_entry_def Let_def split: if_splits)

lemma canonical_runtime: "canonical_name h = ''Runtime_ms'' \<Longrightarrow> strip h = ''Runtime_ms''"
  using colmap_entry_range[of "strip h"]
  by (auto simp: canonical_name_def split: option.splits)

lemma colmap_first_match: "colmap_entry c = first_match rules (lower c)"
  by (simp add: colmap_entry_def rules_def Let_def)

lemma columns_canonicalize: "columns (canonicalize_columns df) = map canonical_name (columns df)"
  by (simp add: columns_def canonicalize_columns_def case_prod_unfold)

lemma columns_clean: "clean_numeric_columns df = Inr df' \<Longrightarrow> columns df' = columns df"
  by (auto simp: clean_numeric_columns_def columns_def case_prod_unfold split: if_splits)

subsection \<open>Numbers\<close>


lemma py_int_numeral: "py_int (numeral k) = numeral k"
  by (simp add: py_int_def)

lemma py_int_half: "py_int (1 / 2) = 0"
  by (simp add: py_int_def floor_eq_iff)





subsection \<open>Aggregation\<close>








subsection \<open>The files of a run\<close>

lemma files_write_outputs:
  "f \<in> set (files (write_outputs a p d s)) \<Longrightarrow>
     (\<exists>q. f = SummaryCsv q s) \<or> (\<exists>q. f = BarChart q (summary_rows (assume_n a) s)) \<or>
     (\<exists>q pl. f = MarkdownReport q (summary_rows (assume_n a) s) pl) \<or>
     (\<exists>q. f = LatexTable q (summary_rows (assume_n a) s)) \<or>
     (\<exists>q d'. f = ScalingPlot q d' \<and> d = Some d' \<and> ''Runtime_ms'' \<in> set (columns d'))"
  by (auto simp: write_outputs_def Let_def split: option.splits if_splits)



lemma scaling_of_write_outputs:
  "t \<in> set (scaling_of (write_outputs a p d s)) \<Longrightarrow> d = Some t \<and> ''Runtime_ms'' \<in> set (columns t)"
  by (auto simp: scaling_of_def dest!: files_write_outputs)



lemma scaling_files: "t \<in> set (scaling_of r) \<Longrightarrow> files r \<noteq> []"
  by (auto simp: scaling_of_def)

lemma report_written:
  assumes "files (report a p df0) \<noteq> []"
  shows "\<exists>df s.
           clean_numeric_columns (canonicalize_columns df0) = Inr df \<and>
           ''Method'' \<in> set (columns df) \<and>
           aggregate (assume_n a) df = Inr s \<and>
           report a p df0 =
             write_outputs a p
               (if ''InputLength'' \<in> set (columns df) \<and> ''Runtime_ms'' \<in> set (columns df)
                then Some df else None) s"
  using assms
  by (auto simp: report_def Let_def split: sum.splits if_splits)

lemma main_written:
  assumes "files (main a e) \<noteq> []"
  shows "\<exists>p df0. csv_path_of a e = Some p \<and> read_csv e p = Inr df0 \<and>
           main a e = report a p df0"
  using assms
  by (auto simp: main_def split: option.splits sum.splits)











lemma main_scaling:
  assumes "t \<in> set (scaling_of (main a e))"
  shows "\<exists>p df0. csv_path_of a e = Some p \<and> read_csv e p = Inr df0 \<and>
           ''InputLength'' \<in> set (map canonical_name (columns df0)) \<and>
           ''Runtime_ms'' \<in> set (map canonical_name (columns df0)) \<and>
           clean_numeric_columns (canonicalize_columns df0) = Inr t"
proof -
  have f: "files (main a e) \<noteq> []" using assms by (rule scaling_files)
  from main_written[OF f] obtain p df0 where
    m: "csv_path_of a e = Some p" "read_csv e p = Inr df0" "main a e = report a p df0"
    by blast
  have "files (report a p df0) \<noteq> []" using f m(3) by simp
  from report_written[OF this] obtain df s where
    c: "clean_numeric_columns (canonicalize_columns df0) = Inr df"
    and w: "report a p df0 =
             write_outputs a p
               (if ''InputLength'' \<in> set (columns df) \<and> ''Runtime_ms'' \<in> set (columns df)
                then Some df else None) s"
    by blast
  have cols: "columns df = map canonical_name (columns df0)"
    using columns_clean[OF c] by (simp add: columns_canonicalize)
  have "t \<in> set (scaling_of (write_outputs a p
               (if ''InputLength'' \<in> set (columns df) \<and> ''Runtime_ms'' \<in> set (columns df)
                then Some df else None) s))"
    using assms m(3) w by simp
  from scaling_of_write_outputs[OF this]
  have "''InputLength'' \<in> set (columns df) \<and> ''Runtime_ms'' \<in> set (columns df) \<and> t = df"
    by (auto split: if_splits)
  then show ?thesis using m c cols by auto
qed

subsection \<open>The example runs\<close>

lemma example_headers:
  "canonical_name ''Method'' = ''Method''"
  "canonical_name ''Mean (ms)'' = ''Mean_ms''"
  "canonical_name ''StdDev (ms)'' = ''StdDev_ms''"
  "canonical_name ''CI95 (ms)'' = ''CI95_ms''"
  "canonical_name ''Fallback %'' = ''Fallback_pct''"
  "canonical_name ''Accuracy %'' = ''Accuracy_pct''"
  "canonical_name ''Samples'' = ''Samples''"
  "canonical_name ''InputLength'' = ''InputLength''"
  "canonical_name ''Runtime_ms'' = ''Runtime_ms''"
  "canonical_name ''Mean'' = ''Mean_ms''"
  "canonical_name ''Avg'' = ''Mean_ms''"
  by code_simp+

lemma example_sort: "sort [''DFA'', ''Regex''] = [''DFA'', ''Regex'']"
  by code_simp

lemma example_cells:
  "extract_number (Some ''n/a'') = None"
  "extract_number (Some ''unknown'') = None"
  by code_simp+

lemmas run_defs = main_def report_def csv_path_of_def given_csv_def env_with_def
  canonicalize_columns_def clean_numeric_columns_def clean_column_def columns_def
  aggregate_def bind_result_def agg_columns_def agg_input_def group_keys_def row_keys_def
  present_def map_filter_simps summarize_group_def group_cells_def agg_mean_def agg_max_def
  fillna_def ci95_of_row_def summary_columns_def compute_ci95_def py_int_numeral py_int_half write_outputs_def
  summary_rows_def render_row_def scaling_plot_raises_def path_stem_def path_name_def Let_def
  example_headers example_sort example_cells




lemma detailed_scaling:
  "scaling_of (main given_csv (env_with detailed_table)) =
     [[(''Method'', ObjectCol [Some ''DFA'', Some ''DFA'']),
       (''InputLength'', FloatCol [Some 10, Some 100]),
       (''Runtime_ms'', FloatCol [Some 1, Some 3]),
       (''Mean_ms'', FloatCol [Some 1, Some 3]),
       (''StdDev_ms'', FloatCol [Some 0, Some 0]),
       (''Fallback_pct'', FloatCol [Some 0, Some 0]),
       (''Accuracy_pct'', FloatCol [Some 100, Some 100]),
       (''Samples'', FloatCol [Some 4, Some 4])]]"
  by (simp add: run_defs detailed_table_def scaling_of_def)

lemma detailed_summary:
  "summary_of (main given_csv (env_with detailed_table)) =
     [\<lparr>Method = Text ''DFA'', Mean_ms = Some 2, StdDev_ms = Some 0, Fallback_pct = Some 0,
       Accuracy_pct = Some 100, Samples = Some 4, CI95_ms = Some 0\<rparr>]"
  by (simp add: run_defs detailed_table_def summary_of_def)

section \<open>The claims\<close>

subsection \<open>C1: a confidence interval given in the source\<close>

text \<open>
  Claim C1 says that a method whose source row gives a \<^verbatim>\<open>CI95_ms\<close> value has that value
  in its summary row, whatever \<^verbatim>\<open>StdDev_ms\<close> and \<^verbatim>\<open>Samples\<close> are. The run does not do
  that. The dictionary given to \<^verbatim>\<open>agg\<close> has no key \<^verbatim>\<open>CI95_ms\<close>, so \<^verbatim>\<open>summary\<close> has no
  such column, the test \<^verbatim>\<open>'CI95_ms' in summary.columns\<close> fails for every row, and the
  interval is computed. In \<open>source_ci_table\<close> the source gives the interval 5, with a
  standard deviation of 1 and 4 samples; the summary row holds 1.96 * 1 / sqrt 4.
\<close>

theorem source_ci95_not_used:
  "summary_of (main given_csv (env_with source_ci_table)) =
     [\<lparr>Method = Text ''Regex'', Mean_ms = Some 1, StdDev_ms = Some 1, Fallback_pct = Some 0,
       Accuracy_pct = Some 100, Samples = Some 4, CI95_ms = Some (1.96 * 1 / 2)\<rparr>]"
  by (simp add: run_defs source_ci_table_def summary_of_def)

subsection \<open>C2: columns that the source lacks\<close>

text \<open>
  Claim C2 says that the aggregation completes for every table with a \<^verbatim>\<open>Method\<close> column
  and that a column the source lacks is all missing in the summary. The run with a table
  that has a \<^verbatim>\<open>Method\<close> column and no other ends in \<^verbatim>\<open>agg\<close> with \<^verbatim>\<open>KeyError\<close>, and
  writes no file.
\<close>

theorem method_only_raises:
  "main given_csv (env_with method_only_table) =
     \<lparr>printed = [UsingCsv ''bench.csv''], files = [], raised = Some KeyError\<rparr>"
  by (simp add: run_defs method_only_table_def)

subsection \<open>C3: detailed rows and the summary\<close>




subsection \<open>C4: the order of the canonicalization rules\<close>

text \<open>
  Claim C4, amended: a header is stripped of surrounding white space and lower-cased for
  the tests, and the first rule that matches in the order of \<open>rules\<close> gives its name:
  \<^verbatim>\<open>method\<close> first, then \<^verbatim>\<open>mean\<close> without \<^verbatim>\<open>ci\<close>, or \<^verbatim>\<open>avg\<close>, then \<^verbatim>\<open>std\<close>,
  \<^verbatim>\<open>ci\<close> with \<^verbatim>\<open>95\<close>, \<^verbatim>\<open>fallback\<close>, \<^verbatim>\<open>accuracy\<close>, \<^verbatim>\<open>sample\<close> or a name equal to
  \<^verbatim>\<open>n\<close>, \<^verbatim>\<open>input\<close> with \<^verbatim>\<open>len\<close>, \<^verbatim>\<open>min\<close>, \<^verbatim>\<open>max\<close>; a header that no rule
  matches keeps its stripped name. In particular a header that contains \<^verbatim>\<open>method\<close>
  becomes \<^verbatim>\<open>Method\<close>, and a header that contains \<^verbatim>\<open>mean\<close> and neither \<^verbatim>\<open>method\<close> nor
  \<^verbatim>\<open>ci\<close> becomes \<^verbatim>\<open>Mean_ms\<close>.
\<close>

theorem canonical_name_rules:
  "canonical_name h = (case first_match rules (lower (strip h)) of Some n \<Rightarrow> n | None \<Rightarrow> strip h) \<and>
   (contains ''method'' (lower h) \<longrightarrow> canonical_name h = ''Method'') \<and>
   (contains ''mean'' (lower h) \<and> \<not> contains ''method'' (lower h) \<and> \<not> contains ''ci'' (lower h)
      \<longrightarrow> canonical_name h = ''Mean_ms'')"
proof -
  have m: "contains ''method'' (lower (strip h)) = contains ''method'' (lower h)"
    by (rule contains_lower_strip) (simp_all add: is_space_def)
  have n: "contains ''mean'' (lower (strip h)) = contains ''mean'' (lower h)"
    by (rule contains_lower_strip) (simp_all add: is_space_def)
  have c: "contains ''ci'' (lower (strip h)) = contains ''ci'' (lower h)"
    by (rule contains_lower_strip) (simp_all add: is_space_def)
  show ?thesis
    using m n c by (simp add: canonical_name_def colmap_first_match[symmetric] colmap_entry_def Let_def)
qed

theorem canonical_name_rules_witness:
  "contains ''mean'' (lower '' Mean (ms) '') \<and> \<not> contains ''method'' (lower '' Mean (ms) '') \<and>
   \<not> contains ''ci'' (lower '' Mean (ms) '') \<and> canonical_name '' Mean (ms) '' = ''Mean_ms'' \<and>
   contains ''method'' (lower ''Mean per Method'') \<and> canonical_name ''Mean per Method'' = ''Method''"
proof -
  have h: "contains ''mean'' (lower '' Mean (ms) '')" "\<not> contains ''method'' (lower '' Mean (ms) '')"
    "\<not> contains ''ci'' (lower '' Mean (ms) '')" "contains ''method'' (lower ''Mean per Method'')"
    by code_simp+
  show ?thesis
    using canonical_name_rules[of "'' Mean (ms) ''"] canonical_name_rules[of "''Mean per Method''"] h
    by blast
qed

text \<open>
  Claim C4 as it is written puts the rule for \<^verbatim>\<open>mean\<close> first and the rule for
  \<^verbatim>\<open>method\<close> last, and lets every header that contains \<^verbatim>\<open>mean\<close> become \<^verbatim>\<open>Mean_ms\<close>. The
  header \<^verbatim>\<open>Mean CI95\<close> contains \<^verbatim>\<open>mean\<close> and becomes \<^verbatim>\<open>CI95_ms\<close>; the header
  \<^verbatim>\<open>Mean per Method\<close> becomes \<^verbatim>\<open>Method\<close>; and a header with spaces around it that no
  rule matches does not keep its original name.
\<close>

theorem mean_header_counterexample:
  "contains ''mean'' (lower ''Mean CI95'') \<and> contains ''method'' (lower ''Method'') \<and>
   map canonical_name [''Mean CI95'', ''Method''] = [''CI95_ms'', ''Method''] \<and>
   contains ''mean'' (lower ''Mean per Method'') \<and> canonical_name ''Mean per Method'' = ''Method'' \<and>
   canonical_name '' Notes '' = ''Notes''"
  by code_simp

subsection \<open>C5: the computed confidence interval\<close>




subsection \<open>C6: the order of the summary rows\<close>




subsection \<open>C7: the defaults for missing values\<close>



subsection \<open>C9: the early returns\<close>




subsection \<open>C10: no rule gives the name Runtime_ms\<close>

text \<open>
  Claim C10: a header whose canonical name is \<^verbatim>\<open>Runtime_ms\<close> is \<^verbatim>\<open>Runtime_ms\<close> once
  stripped; a run that gives a table to the scaling plot has read a table with such a
  header; and the header \<^verbatim>\<open>Runtime(ms)\<close> does not get that name.
\<close>

theorem runtime_ms_literal:
  "(canonical_name h = ''Runtime_ms'' \<longrightarrow> strip h = ''Runtime_ms'') \<and>
   (t \<in> set (scaling_of (main a e)) \<longrightarrow>
      (\<exists>p df0. csv_path_of a e = Some p \<and> read_csv e p = Inr df0 \<and>
         (\<exists>h'\<in>set (columns df0). strip h' = ''Runtime_ms''))) \<and>
   canonical_name ''Runtime(ms)'' \<noteq> ''Runtime_ms''"
proof (intro conjI impI)
  assume "canonical_name h = ''Runtime_ms''"
  then show "strip h = ''Runtime_ms''" by (rule canonical_runtime)
next
  assume "t \<in> set (scaling_of (main a e))"
  from main_scaling[OF this] obtain p df0 where
    m: "csv_path_of a e = Some p" "read_csv e p = Inr df0"
       "''Runtime_ms'' \<in> set (map canonical_name (columns df0))"
    by blast
  then obtain h' where "h' \<in> set (columns df0)" "canonical_name h' = ''Runtime_ms''" by auto
  then have "\<exists>h'\<in>set (columns df0). strip h' = ''Runtime_ms''"
    using canonical_runtime by blast
  then show "\<exists>p df0. csv_path_of a e = Some p \<and> read_csv e p = Inr df0 \<and>
         (\<exists>h'\<in>set (columns df0). strip h' = ''Runtime_ms'')"
    using m by blast
next
  show "canonical_name ''Runtime(ms)'' \<noteq> ''Runtime_ms''" by code_simp
qed

theorem runtime_ms_literal_witness:
  "canonical_name ''Runtime_ms'' = ''Runtime_ms'' \<and> strip ''Runtime_ms'' = ''Runtime_ms'' \<and>
   scaling_of (main given_csv (env_with detailed_table)) \<noteq> [] \<and>
   (\<exists>p df0. csv_path_of given_csv (env_with detailed_table) = Some p \<and>
      read_csv (env_with detailed_table) p = Inr df0 \<and>
      (\<exists>h'\<in>set (columns df0). strip h' = ''Runtime_ms''))"
proof -
  have n: "canonical_name ''Runtime_ms'' = ''Runtime_ms''" by (simp add: example_headers)
  obtain t where t: "t \<in> set (scaling_of (main given_csv (env_with detailed_table)))"
    by (simp add: detailed_scaling)
  then have ne: "scaling_of (main given_csv (env_with detailed_table)) \<noteq> []" by auto
  show ?thesis
    using runtime_ms_literal[of "''Runtime_ms''" t given_csv "env_with detailed_table"] n t ne
    by blast
qed

end
